theory Spec2Isabelle
  imports Main "HOL-Library.Word" "HOL-Library.Sublist"
begin

unbundle bit_operations_syntax

section \<open>Package core: configuration and server wiring (cmd/core/core.go)\<close>

text \<open>
  Go's \<open>int\<close> fields that are only copied are modelled as \<open>int\<close>, a \<open>[2]int\<close> as a
  pair, a \<open>string\<close> as a \<open>string\<close>, a pointer that may be \<open>nil\<close> as an \<open>option\<close>.
  The loggers carry no data the wiring depends on and are left out of the records.
\<close>

type_synonym int2 = "int \<times> int"

text \<open>
  \<open>resolve.Hosts\<close> is declared in package \<open>resolve\<close>. \<open>RunServer\<close> only copies the list of
  host rules, so a rule is a value of an unspecified type.
\<close>

typedecl resolve_Hosts

text \<open>
  \<open>dialer.Dialer\<close> and \<open>resolve.LocalResolver\<close> with the fields that the composite literals
  of \<open>RunServer\<close> set, and the DoH client. \<open>doh.Client\<close> is declared in package \<open>doh\<close>;
  here a client is the options that \<open>doh.NewClient\<close> is called with.
\<close>

record Dialer =
  Dialer_EnableLowLevelSockets :: bool
  Dialer_TLSPaddingEnabled :: bool
  Dialer_TLSPaddingSize :: int2
  ProxyAddress :: string

record LocalResolver =
  LocalResolver_Hosts :: "resolve_Hosts list"

record doh_Client =
  WithDNSFragmentation :: bool
  WithDialer :: Dialer
  WithLocalResolver :: LocalResolver

record Config =
  TLSHeaderLength :: int
  TLSPaddingEnabled :: bool
  TLSPaddingSize :: int2
  DnsCacheTTL :: int
  DnsRequestTimeout :: int
  WorkerAddress :: string
  WorkerIPPortAddress :: string
  WorkerEnabled :: bool
  WorkerDNSOnly :: bool
  EnableLowLevelSockets :: bool
  EnableDNSFragmentation :: bool
  RemoteDNSAddr :: string
  BindAddress :: string
  ChunksLengthBeforeSni :: int2
  SniChunksLength :: int2
  ChunksLengthAfterSni :: int2
  DelayBetweenChunks :: int2
  Hosts :: "resolve_Hosts list"
  ResolveSystem :: string
  DoHClient :: "doh_Client option"

text \<open>
  \<open>server.ChunkConfig\<close>, \<open>server.WorkerConfig\<close> and \<open>server.Server\<close> are declared in
  package \<open>server\<close>. The records below have exactly the fields that the composite literals
  of \<open>RunServer\<close> name; a Go composite literal leaves every field it does not name at its
  zero value, so these four are the only fields of the chunk configuration that carry
  configured data.
\<close>

record ChunkConfig =
  BeforeSniLength :: int2
  AfterSniLength :: int2
  Delay :: int2
  ChunkConfig_TLSHeaderLength :: int

record WorkerConfig =
  WorkerConfig_WorkerAddress :: string
  WorkerConfig_WorkerIPPortAddress :: string
  WorkerConfig_WorkerEnabled :: bool
  WorkerConfig_WorkerDNSOnly :: bool

record Server =
  Server_RemoteDNSAddr :: string
  Server_ResolveSystem :: string
  Server_DoHClient :: "doh_Client option"
  Server_ChunkConfig :: ChunkConfig
  Server_WorkerConfig :: WorkerConfig
  Server_BindAddress :: string
  Server_EnableLowLevelSockets :: bool
  Server_Dialer :: Dialer
  Server_LocalResolver :: LocalResolver

subsection \<open>The values \<open>RunServer\<close> builds\<close>

definition localResolver :: "Config \<Rightarrow> LocalResolver" where
  "localResolver config = \<lparr> LocalResolver_Hosts = Hosts config \<rparr>"

text \<open>The variable \<open>dialer_\<close> of \<open>RunServer\<close>.\<close>

definition dialer' :: "Config \<Rightarrow> Dialer" where
  "dialer' config =
     \<lparr> Dialer_EnableLowLevelSockets = EnableLowLevelSockets config,
       Dialer_TLSPaddingEnabled = TLSPaddingEnabled config,
       Dialer_TLSPaddingSize = TLSPaddingSize config,
       ProxyAddress = ''socks5://'' @ BindAddress config \<rparr>"

text \<open>
  The branch on \<open>strings.HasPrefix(config.RemoteDNSAddr, "https://")\<close>: the resolve system
  and the DoH client (\<open>None\<close> is the \<open>nil\<close> client of the \<open>else\<close> branch).
\<close>

definition resolveSystem :: "Config \<Rightarrow> string" where
  "resolveSystem config =
     (if prefix ''https://'' (RemoteDNSAddr config) then ''doh'' else ''DNSCrypt'')"

definition dohClient :: "Config \<Rightarrow> doh_Client option" where
  "dohClient config =
     (if prefix ''https://'' (RemoteDNSAddr config) then
        Some \<lparr> WithDNSFragmentation =
                 ((WorkerEnabled config \<and> WorkerDNSOnly config) \<or> EnableDNSFragmentation config),
               WithDialer = dialer' config,
               WithLocalResolver = localResolver config \<rparr>
      else None)"

definition chunkConfig :: "Config \<Rightarrow> ChunkConfig" where
  "chunkConfig config =
     \<lparr> BeforeSniLength = SniChunksLength config,
       AfterSniLength = ChunksLengthAfterSni config,
       Delay = DelayBetweenChunks config,
       ChunkConfig_TLSHeaderLength = TLSHeaderLength config \<rparr>"

definition workerConfig :: "Config \<Rightarrow> WorkerConfig" where
  "workerConfig config =
     \<lparr> WorkerConfig_WorkerAddress = WorkerAddress config,
       WorkerConfig_WorkerIPPortAddress = WorkerIPPortAddress config,
       WorkerConfig_WorkerEnabled = WorkerEnabled config,
       WorkerConfig_WorkerDNSOnly = WorkerDNSOnly config \<rparr>"

definition serverHandler :: "Config \<Rightarrow> Server" where
  "serverHandler config =
     \<lparr> Server_RemoteDNSAddr = RemoteDNSAddr config,
       Server_ResolveSystem = resolveSystem config,
       Server_DoHClient = dohClient config,
       Server_ChunkConfig = chunkConfig config,
       Server_WorkerConfig = workerConfig config,
       Server_BindAddress = BindAddress config,
       Server_EnableLowLevelSockets = EnableLowLevelSockets config,
       Server_Dialer = dialer' config,
       Server_LocalResolver = localResolver config \<rparr>"

subsection \<open>Shutdown and the interrupt handler\<close>

text \<open>
  What the process does is recorded as the sequence of calls it makes on the outside world.
  \<open>ShutDown\<close> makes one call, \<open>s5.Shutdown()\<close>, and returns its result; the goroutine that
  \<open>RunServer\<close> starts when \<open>captureCTRLC\<close> is set waits for a signal, calls \<open>ShutDown\<close>,
  drops its result and calls \<open>os.Exit(0)\<close>. Without \<open>captureCTRLC\<close> no handler is installed
  (\<open>None\<close>), and what a signal does is the runtime's business.
\<close>

datatype proc_call = S5_Shutdown | Os_Exit int

definition ShutDown :: "proc_call list" where
  "ShutDown = [S5_Shutdown]"

definition signal_goroutine :: "proc_call list" where
  "signal_goroutine = ShutDown @ [Os_Exit 0]"

definition on_interrupt :: "bool \<Rightarrow> proc_call list option" where
  "on_interrupt captureCTRLC = (if captureCTRLC then Some signal_goroutine else None)"

text \<open>The status the process exits with: the argument of the first \<open>os.Exit\<close> it reaches.\<close>

fun exit_status :: "proc_call list \<Rightarrow> int option" where
  "exit_status [] = None"
| "exit_status (Os_Exit n # cs) = Some n"
| "exit_status (S5_Shutdown # cs) = exit_status cs"

section \<open>Package transport: the UDP-over-WebSocket tunnel\<close>

type_synonym u16 = "16 word"
type_synonym byte = "8 word"

text \<open>
  A Go channel of packets is a reference; the model names each channel by a number. What
  is sent on a channel is recorded in the sequence of calls (below).
\<close>

type_synonym chan = nat

text \<open>
  \<open>UDPPacket\<close> is declared in another file of the package; its two fields are taken from
  the positional literal \<open>UDPPacket{channelID, rawPacket[2:n]}\<close> and from \<open>rt.Channel\<close>,
  \<open>rt.Data\<close>.
\<close>

record UDPPacket =
  Channel :: u16
  Data :: "byte list"

record EstablishedTunnel =
  tunnelWriteChannel :: chan
  bindWriteChannels :: "u16 \<rightharpoonup> chan"
  channelIndex :: u16

text \<open>
  The \<open>Dialer\<close> pointer of \<open>WSTunnel\<close> is used by \<open>Dial\<close> only and is left out. The map of
  established tunnels holds pointers; each tunnel is reachable through the map alone, so an
  update through the pointer is an update of the map entry. The map is taken to be
  allocated (a write to a \<open>nil\<close> map would panic; a \<open>WSTunnel\<close> is constructed by its user).
\<close>

record WSTunnel =
  WSTunnel_BindAddress :: string
  ReadTimeout :: int
  WriteTimeout :: int
  LinkIdleTimeout :: int
  EstablishedTunnels :: "string \<rightharpoonup> EstablishedTunnel"
  ShortClientID :: string

subsection \<open>Library functions the tunnel uses\<close>

text \<open>
  \<open>time.Time\<close> is an instant in nanoseconds, \<open>time.Duration\<close> a signed 64-bit count of
  nanoseconds whose arithmetic wraps, \<open>Unix()\<close> the whole seconds of an instant. The
  timeouts are Go \<open>int\<close>s (\<open>LinkIdleTimeout\<close> an \<open>int64\<close>); the only arithmetic on them is
  the conversion to a \<open>Duration\<close> and the product with \<open>time.Second\<close>, which wraps at 64
  bits. The difference of two clock readings in seconds is far from the 64-bit bounds and
  is taken in \<open>int\<close>.
\<close>

type_synonym Time = int
type_synonym Duration = "64 word"

definition Second :: Duration where
  "Second = 1000000000"

definition Duration_of :: "int \<Rightarrow> Duration" where
  "Duration_of n = word_of_int n"

definition time_Add :: "Time \<Rightarrow> Duration \<Rightarrow> Time" where
  "time_Add t d = t + sint d"

definition Unix :: "Time \<Rightarrow> int" where
  "Unix t = t div 1000000000"

text \<open>\<open>binary.BigEndian.PutUint16\<close> into a fresh two-byte slice, and \<open>binary.BigEndian.Uint16\<close>.\<close>

definition PutUint16 :: "u16 \<Rightarrow> byte list" where
  "PutUint16 v = [ucast (drop_bit 8 v), ucast v]"

definition Uint16 :: "byte list \<Rightarrow> u16" where
  "Uint16 b = (ucast (b ! 1) OR push_bit 8 (ucast (b ! 0)))"

text \<open>\<open>[]byte(s)\<close> and \<open>strings.Contains\<close>.\<close>

definition bytes_of :: "string \<Rightarrow> byte list" where
  "bytes_of s = map (\<lambda>c. of_nat (of_char c)) s"

fun Contains :: "string \<Rightarrow> string \<Rightarrow> bool" where
  "Contains [] substr = (substr = [])"
| "Contains (c # s) substr = (prefix substr (c # s) \<or> Contains s substr)"

subsection \<open>PersistentDial: attaching a bind queue\<close>

text \<open>
  The synchronous part of \<open>PersistentDial\<close>. \<open>made\<close> is the channel that
  \<open>make(chan UDPPacket)\<close> returns when it is called, \<open>now\<close> the value of \<open>time.Now()\<close> that
  initialises \<open>lastActivityStamp\<close>. The result holds the tunnel after the call, the three
  returned values (the error as \<open>None\<close> for \<open>nil\<close>) and, when the supervisor goroutine was
  started, the \<open>lastActivityStamp\<close> it starts with.
\<close>

record PersistentDial_result =
  tunnel_after :: WSTunnel
  ret_chan :: chan
  ret_id :: u16
  ret_err :: "string option"
  started :: "int option"

definition PersistentDial ::
  "WSTunnel \<Rightarrow> chan \<Rightarrow> Time \<Rightarrow> string \<Rightarrow> chan \<Rightarrow> PersistentDial_result" where
  "PersistentDial w made now tunnelEndpoint bindWriteChannel =
     (case EstablishedTunnels w tunnelEndpoint of
        Some tunnel \<Rightarrow>
          (let counted = tunnel\<lparr> channelIndex := channelIndex tunnel + 1 \<rparr>;
               bound = counted\<lparr> bindWriteChannels :=
                         (bindWriteChannels counted)(channelIndex counted \<mapsto> bindWriteChannel) \<rparr>
           in \<lparr> tunnel_after =
                   w\<lparr> EstablishedTunnels := (EstablishedTunnels w)(tunnelEndpoint \<mapsto> bound) \<rparr>,
                 ret_chan = tunnelWriteChannel bound,
                 ret_id = channelIndex bound,
                 ret_err = None,
                 started = None \<rparr>)
      | None \<Rightarrow>
          (let created = \<lparr> tunnelWriteChannel = made,
                           bindWriteChannels = Map.empty,
                           channelIndex = 1 \<rparr>;
               bound = created\<lparr> bindWriteChannels :=
                         (bindWriteChannels created)(1 \<mapsto> bindWriteChannel) \<rparr>
           in \<lparr> tunnel_after =
                   w\<lparr> EstablishedTunnels := (EstablishedTunnels w)(tunnelEndpoint \<mapsto> bound) \<rparr>,
                 ret_chan = made,
                 ret_id = 1,
                 ret_err = None,
                 started = Some (Unix now) \<rparr>))"

text \<open>
  A sequence of \<open>PersistentDial\<close> calls, each with its own \<open>made\<close>, \<open>now\<close>, endpoint and
  bind queue: the channel ids returned to the calls for endpoint \<open>e\<close>, in call order.
\<close>

fun dial_ids :: "string \<Rightarrow> WSTunnel \<Rightarrow> (chan \<times> Time \<times> string \<times> chan) list \<Rightarrow> u16 list" where
  "dial_ids e w [] = []"
| "dial_ids e w ((made, now, tunnelEndpoint, bindWriteChannel) # calls) =
     (let r = PersistentDial w made now tunnelEndpoint bindWriteChannel
      in (if tunnelEndpoint = e then [ret_id r] else []) @ dial_ids e (tunnel_after r) calls)"

subsection \<open>The supervisor goroutine: writer, reader and the reconnect loop\<close>

text \<open>
  The goroutines act on the outside world through calls on the WebSocket connection and
  sends on Go channels; a run is described by the sequence of these calls. Whatever the
  outside world answers (the clock, the errors of the connection, the bytes read) is an
  input of the model.
\<close>

datatype tunnel_call =
    Dial string
  | SetWriteDeadline Time
  | Conn_Write "byte list"
  | SetReadDeadline Time
  | Conn_Read
  | Chan_Send chan UDPPacket
  | Conn_Close

text \<open>Whether a loop goes round again or the function around it returns.\<close>

datatype flow = Continue | Return

text \<open>
  One receive of the writer: \<open>case rt := <-tunnelWriteChannel\<close>. The inputs are the two
  readings of the clock and what \<open>SetWriteDeadline\<close> and \<open>Write\<close> return. The result: the
  calls made, \<open>lastActivityStamp\<close> afterwards, and whether the writer loops or returns.
\<close>

record write_env =
  now_deadline :: Time
  deadline_err :: "string option"
  write_err :: "string option"
  now_written :: Time

definition writer_packet ::
  "WSTunnel \<Rightarrow> int \<Rightarrow> UDPPacket \<Rightarrow> write_env \<Rightarrow> tunnel_call list \<times> int \<times> flow" where
  "writer_packet w lastActivityStamp rt env =
     (let deadline = SetWriteDeadline
            (time_Add (now_deadline env) (Duration_of (WriteTimeout w) * Second))
      in if deadline_err env \<noteq> None then ([deadline], lastActivityStamp, Return)
         else
           (let bs = PutUint16 (Channel rt);
                out = Conn_Write (bytes_of (ShortClientID w) @ (bs @ Data rt))
            in if write_err env \<noteq> None then ([deadline, out], lastActivityStamp, Return)
               else ([deadline, out], Unix (now_written env), Continue)))"

text \<open>
  One pass of the reader's \<open>default\<close> branch. \<open>read_data\<close> is \<open>rawPacket[:n]\<close>, the \<open>n\<close> bytes
  that \<open>conn.Read\<close> put into the fresh 32 KiB buffer, so \<open>n\<close> is its length; where the
  channel id is parsed \<open>n\<close> is at least 2 and both indices of \<open>Uint16\<close> are in range. The
  result is \<open>None\<close> when the pass panics: the lookup \<open>w.EstablishedTunnels[tunnelEndpoint]\<close>
  yields a \<open>nil\<close> pointer for an endpoint that is not in the map, and the field access
  dereferences it.
\<close>

record read_result =
  read_data :: "byte list"
  read_err :: "string option"
  now_sent :: Time

definition reader_read ::
  "WSTunnel \<Rightarrow> string \<Rightarrow> int \<Rightarrow> read_result \<Rightarrow> (tunnel_call list \<times> int \<times> flow) option" where
  "reader_read w tunnelEndpoint lastActivityStamp r =
     (let n = int (length (read_data r))
      in if n < 2 \<and> read_err r = None then Some ([Conn_Read], lastActivityStamp, Continue)
         else
           (case read_err r of
              Some err \<Rightarrow>
                (if Contains err ''websocket: close'' \<or> Contains err ''i/o''
                 then Some ([Conn_Read], lastActivityStamp, Return)
                 else Some ([Conn_Read], lastActivityStamp, Continue))
            | None \<Rightarrow>
                (let channelID = Uint16 (take 2 (read_data r));
                     pkt = \<lparr> Channel = channelID, Data = drop 2 (read_data r) \<rparr>
                 in case EstablishedTunnels w tunnelEndpoint of
                      None \<Rightarrow> None
                    | Some tunnel \<Rightarrow>
                        (case bindWriteChannels tunnel (Channel pkt) of
                           Some udpBindWriteChan \<Rightarrow>
                             Some ([Conn_Read, Chan_Send udpBindWriteChan pkt],
                                   Unix (now_sent r), Continue)
                         | None \<Rightarrow> Some ([Conn_Read], lastActivityStamp, Continue)))))"

text \<open>
  A connection is served by the writer goroutine and the reader, which share
  \<open>lastActivityStamp\<close>. The scheduler's choices are a list of events: the writer receives a
  packet, or the reader goes through its \<open>select\<close> once (with what \<open>conn.Read\<close> would
  return). \<open>writing\<close> says that the writer has not returned yet; once it has, \<open>doneR\<close> is
  closed, nobody receives from the write queue, and the reader's next \<open>select\<close> returns.
  When the list is used up with nobody having returned, both are blocked (\<open>Continue\<close>).
  The connection ends when the reader returns; its deferred function closes \<open>done\<close> and the
  connection.
\<close>

datatype event = Writer_receives UDPPacket write_env | Reader_select read_result

fun serve ::
  "WSTunnel \<Rightarrow> string \<Rightarrow> int \<Rightarrow> bool \<Rightarrow> event list \<Rightarrow> (tunnel_call list \<times> int \<times> flow) option" where
  "serve w tunnelEndpoint stamp writing [] = Some ([], stamp, Continue)"
| "serve w tunnelEndpoint stamp writing (Writer_receives rt env # evs) =
     (if writing then
        (case writer_packet w stamp rt env of
           (calls, stamp', Continue) \<Rightarrow>
             map_option (\<lambda>(cs, s, f). (calls @ cs, s, f)) (serve w tunnelEndpoint stamp' True evs)
         | (calls, stamp', Return) \<Rightarrow>
             map_option (\<lambda>(cs, s, f). (calls @ Conn_Close # cs, s, f))
               (serve w tunnelEndpoint stamp' False evs))
      else serve w tunnelEndpoint stamp writing evs)"
| "serve w tunnelEndpoint stamp writing (Reader_select r # evs) =
     (if \<not> writing then Some ([Conn_Close], stamp, Return)
      else
        (case reader_read w tunnelEndpoint stamp r of
           None \<Rightarrow> None
         | Some (calls, stamp', Continue) \<Rightarrow>
             map_option (\<lambda>(cs, s, f). (calls @ cs, s, f)) (serve w tunnelEndpoint stamp' True evs)
         | Some (calls, stamp', Return) \<Rightarrow> Some (calls @ [Conn_Close], stamp', Return)))"

text \<open>
  The reader function as a whole: the read deadline is set once, before the loop. \<open>now\<close> is
  the clock at that call and \<open>deadline_error\<close> what \<open>SetReadDeadline\<close> returns.
\<close>

definition connection ::
  "WSTunnel \<Rightarrow> string \<Rightarrow> int \<Rightarrow> Time \<Rightarrow> string option \<Rightarrow> event list
     \<Rightarrow> (tunnel_call list \<times> int \<times> flow) option" where
  "connection w tunnelEndpoint stamp now deadline_error evs =
     (let deadline = SetReadDeadline (time_Add now (Duration_of (ReadTimeout w) * Second))
      in if deadline_error \<noteq> None then Some ([deadline, Conn_Close], stamp, Return)
         else map_option (\<lambda>(cs, s, f). (deadline # cs, s, f))
                (serve w tunnelEndpoint stamp True evs))"

text \<open>
  One pass of the supervisor's \<open>for\<close> loop: either \<open>w.Dial\<close> fails and the loop continues, or
  the connection is served until the reader returns. The loop has no \<open>break\<close> and no
  \<open>return\<close> of its own: after any number of passes the goroutine is still in it. The result
  of \<open>passes\<close> is the calls made and \<open>lastActivityStamp\<close>; \<open>None\<close> is a panic.
\<close>

datatype pass = Dial_fails | Dial_connects Time "string option" "event list"

fun passes :: "WSTunnel \<Rightarrow> string \<Rightarrow> int \<Rightarrow> pass list \<Rightarrow> (tunnel_call list \<times> int) option" where
  "passes w tunnelEndpoint stamp [] = Some ([], stamp)"
| "passes w tunnelEndpoint stamp (Dial_fails # ps) =
     map_option (\<lambda>(cs, s). (Dial tunnelEndpoint # cs, s)) (passes w tunnelEndpoint stamp ps)"
| "passes w tunnelEndpoint stamp (Dial_connects now deadline_error evs # ps) =
     (case connection w tunnelEndpoint stamp now deadline_error evs of
        None \<Rightarrow> None
      | Some (calls, stamp', Continue) \<Rightarrow> Some (Dial tunnelEndpoint # calls, stamp')
      | Some (calls, stamp', Return) \<Rightarrow>
          map_option (\<lambda>(cs, s). (Dial tunnelEndpoint # calls @ cs, s))
            (passes w tunnelEndpoint stamp' ps))"

text \<open>
  The goroutine that \<open>PersistentDial\<close> starts for a new endpoint. \<open>now\<close> is the clock at the
  check that precedes the loop. When the goroutine returns, the deferred \<open>delete\<close> removes
  the endpoint from the map; a panic runs the deferred \<open>delete\<close> as well and ends the
  process.
\<close>

datatype supervision =
    Returned WSTunnel
  | Looping WSTunnel "tunnel_call list" int
  | Panicked

definition delete_endpoint :: "WSTunnel \<Rightarrow> string \<Rightarrow> WSTunnel" where
  "delete_endpoint w tunnelEndpoint =
     w\<lparr> EstablishedTunnels := (EstablishedTunnels w)(tunnelEndpoint := None) \<rparr>"

definition supervisor :: "WSTunnel \<Rightarrow> string \<Rightarrow> int \<Rightarrow> Time \<Rightarrow> pass list \<Rightarrow> supervision" where
  "supervisor w tunnelEndpoint lastActivityStamp now ps =
     (if Unix now - lastActivityStamp > LinkIdleTimeout w
      then Returned (delete_endpoint w tunnelEndpoint)
      else
        (case passes w tunnelEndpoint lastActivityStamp ps of
           None \<Rightarrow> Panicked
         | Some (calls, stamp) \<Rightarrow> Looping w calls stamp))"

subsection \<open>Quantities the statements use\<close>

text \<open>
  The index last handed out for an endpoint (0 when the endpoint has no tunnel), and the
  number of calls in a sequence that attach to endpoint \<open>e\<close>.
\<close>

definition last_id :: "WSTunnel \<Rightarrow> string \<Rightarrow> u16" where
  "last_id w e = (case EstablishedTunnels w e of None \<Rightarrow> 0 | Some tunnel \<Rightarrow> channelIndex tunnel)"

definition attaches :: "string \<Rightarrow> (chan \<times> Time \<times> string \<times> chan) list \<Rightarrow> nat" where
  "attaches e calls =
     length (filter (\<lambda>(made, now, tunnelEndpoint, bindWriteChannel). tunnelEndpoint = e) calls)"

section \<open>Concrete inputs\<close>

text \<open>
  The configuration of the first scenario of the specification (chunk ranges 1..3 before
  the SNI, 1..1 in it, 10..20 after it, no delay), with a DoH resolver and a worker that is
  used for DNS only.
\<close>

definition scenario_config :: Config where
  "scenario_config =
     \<lparr> TLSHeaderLength = 5, TLSPaddingEnabled = False, TLSPaddingSize = (0, 0),
       DnsCacheTTL = 30, DnsRequestTimeout = 10,
       WorkerAddress = ''https://worker.example/dns-query'',
       WorkerIPPortAddress = ''104.16.0.1:443'',
       WorkerEnabled = True, WorkerDNSOnly = True,
       EnableLowLevelSockets = False, EnableDNSFragmentation = False,
       RemoteDNSAddr = ''https://1.1.1.1/dns-query'', BindAddress = ''127.0.0.1:8085'',
       ChunksLengthBeforeSni = (1, 3), SniChunksLength = (1, 1),
       ChunksLengthAfterSni = (10, 20), DelayBetweenChunks = (0, 0),
       Hosts = [], ResolveSystem = [], DoHClient = None \<rparr>"

text \<open>
  A tunnel object with no endpoint yet (read timeout 100 s, write timeout 10 s, idle
  timeout 60 s), and the same object after the first attach to one endpoint at second
  1000: the write queue is channel 1, the bind queue channel 7.
\<close>

definition endpoint0 :: string where
  "endpoint0 = ''wss://worker.example/udp''"

definition tunnel0 :: WSTunnel where
  "tunnel0 =
     \<lparr> WSTunnel_BindAddress = ''127.0.0.1:8085'', ReadTimeout = 100, WriteTimeout = 10,
       LinkIdleTimeout = 60, EstablishedTunnels = Map.empty, ShortClientID = ''abcdefgh'' \<rparr>"

definition tunnel1 :: WSTunnel where
  "tunnel1 = tunnel_after (PersistentDial tunnel0 1 1000000000000 endpoint0 7)"

text \<open>A packet for channel 1, and two answers of the connection to its write.\<close>

definition packet0 :: UDPPacket where
  "packet0 = \<lparr> Channel = 1, Data = [222, 173] \<rparr>"

definition write_ok :: write_env where
  "write_ok = \<lparr> now_deadline = 1005000000000, deadline_err = None, write_err = None,
                 now_written = 1005000000001 \<rparr>"

definition write_no_deadline :: write_env where
  "write_no_deadline = \<lparr> now_deadline = 1005000000000,
                          deadline_err = Some ''set write deadline: closed'',
                          write_err = None, now_written = 1005000000001 \<rparr>"

text \<open>
  Reads: a four-byte message for channel 1 (at seconds 1003 and 1008), and a read that
  fails with a timeout.
\<close>

definition read_a :: read_result where
  "read_a = \<lparr> read_data = [0, 1, 222, 173], read_err = None, now_sent = 1003000000000 \<rparr>"

definition read_b :: read_result where
  "read_b = \<lparr> read_data = [0, 1, 190, 239], read_err = None, now_sent = 1008000000000 \<rparr>"

definition read_timeout :: read_result where
  "read_timeout = \<lparr> read_data = [], read_err = Some ''read tcp: i/o timeout'',
                     now_sent = 1100000000000 \<rparr>"

text \<open>A one-byte message, and a message for channel 9, which nobody has registered.\<close>

definition read_short :: read_result where
  "read_short = \<lparr> read_data = [5], read_err = None, now_sent = 1004000000000 \<rparr>"

definition read_stale :: read_result where
  "read_stale = \<lparr> read_data = [0, 9, 1, 2, 3], read_err = None, now_sent = 1004000000000 \<rparr>"

text \<open>
  Two passes of the supervisor's loop with no traffic at all: a connection made at second
  1000 whose only read times out, and the next connection, made at second 1100.
\<close>

definition idle_passes :: "pass list" where
  "idle_passes = [Dial_connects 1000000000000 None [Reader_select read_timeout],
                  Dial_connects 1100000000000 None []]"

text \<open>Four attaches, three of them to the endpoint above.\<close>

definition calls0 :: "(chan \<times> Time \<times> string \<times> chan) list" where
  "calls0 = [(1, 1000000000000, endpoint0, 7), (2, 1001000000000, ''wss://other.example/udp'', 8),
             (3, 1002000000000, endpoint0, 9), (4, 1003000000000, endpoint0, 10)]"

section \<open>Library facts\<close>

text \<open>
  \<open>time.Duration(n) * time.Second\<close> is \<open>n\<close> seconds as long as the product fits 64 bits
  (about 292 years).
\<close>

lemma seconds_exact:
  assumes "- 9223372036 \<le> n" and "n \<le> 9223372036"
  shows "sint (Duration_of n * Second) = n * 1000000000"
proof -
  have "Duration_of n * Second = (word_of_int (n * 1000000000) :: 64 word)"
    by (simp add: Duration_of_def Second_def)
  then have "sint (Duration_of n * Second) = signed_take_bit 63 (n * 1000000000)"
    by (simp only: sint_sbintrunc') simp
  also have "signed_take_bit 63 (n * 1000000000) = n * 1000000000"
    using assms by (intro signed_take_bit_int_eq_self) simp_all
  finally show ?thesis .
qed

lemma time_Add_seconds:
  "- 9223372036 \<le> n \<Longrightarrow> n \<le> 9223372036 \<Longrightarrow>
   time_Add t (Duration_of n * Second) = t + n * 1000000000"
  by (simp add: time_Add_def seconds_exact)

text \<open>The two bytes of \<open>PutUint16\<close> are the high and the low byte, and \<open>Uint16\<close> reads them back.\<close>

lemma unat_high_byte: "unat (ucast (drop_bit 8 (v :: 16 word)) :: 8 word) = unat v div 256"
proof -
  have "unat v < 65536" using unsigned_less [of v, where ?'a = nat] by simp
  then have "unat v div 256 < 256" by simp
  then show ?thesis
    by (simp add: unsigned_ucast_eq unat_drop_bit_eq drop_bit_eq_div take_bit_eq_mod unat_div)
qed

lemma unat_low_byte: "unat (ucast (v :: 16 word) :: 8 word) = unat v mod 256"
  by (simp add: unsigned_ucast_eq take_bit_eq_mod)

lemma PutUint16_big_endian: "map unat (PutUint16 v) = [unat v div 256, unat v mod 256]"
proof -
  have "unat (ucast (drop_bit 8 v) :: 8 word) = unat v div 256"
    by (rule unat_high_byte)
  moreover have "unat (ucast v :: 8 word) = unat v mod 256"
    by (rule unat_low_byte)
  ultimately show ?thesis
    by (simp add: PutUint16_def)
qed

lemma Uint16_big_endian: "unat (Uint16 (a # b # bs)) = 256 * unat a + unat b"
proof -
  have a: "unat a < 256" using unsigned_less [of a, where ?'a = nat] by simp
  have b: "unat b < 256" using unsigned_less [of b, where ?'a = nat] by simp
  have "(ucast b :: 16 word) + push_bit 8 (ucast a) = ucast b OR push_bit 8 (ucast a)"
    by (rule disjunctive_add) (auto simp add: bit_simps dest: bit_imp_le_length)
  then have "Uint16 (a # b # bs) = ucast b + push_bit 8 (ucast a)"
    by (simp add: Uint16_def)
  moreover have "unat (ucast b :: 16 word) = unat b"
    using b by (simp add: unsigned_ucast_eq take_bit_eq_mod)
  moreover have "unat (push_bit 8 (ucast a :: 16 word)) = 256 * unat a"
  proof -
    have "unat (push_bit 8 (ucast a :: 16 word)) =
            take_bit 16 (push_bit 8 (take_bit 16 (unat a)))"
      by (simp only: unsigned_push_bit_eq unsigned_ucast_eq) simp
    also have "\<dots> = 256 * unat a"
      using a by (simp add: take_bit_eq_mod push_bit_eq_mult)
    finally show ?thesis .
  qed
  ultimately show ?thesis
    using a b by (simp add: unat_word_ariths)
qed

lemma Uint16_PutUint16: "Uint16 (PutUint16 v) = v"
  unfolding PutUint16_def Uint16_def
  by (rule bit_word_eqI) (auto simp add: bit_simps)

section \<open>The chunk configuration\<close>

text \<open>
  What \<open>RunServer\<close> puts into the chunk configuration, for every configuration: the
  before-SNI range of the handler is the configured SNI range, and the configured
  before-SNI range reaches neither the chunk configuration nor any other part of the
  handler.
\<close>

lemma chunkConfig_ranges:
  "BeforeSniLength (chunkConfig config) = SniChunksLength config \<and>
   AfterSniLength (chunkConfig config) = ChunksLengthAfterSni config \<and>
   Delay (chunkConfig config) = DelayBetweenChunks config"
  by (simp add: chunkConfig_def)

lemma serverHandler_ignores_ChunksLengthBeforeSni:
  "serverHandler (config\<lparr> ChunksLengthBeforeSni := before \<rparr>) = serverHandler config"
  by (simp add: serverHandler_def chunkConfig_def workerConfig_def dohClient_def
      resolveSystem_def dialer'_def localResolver_def)

text \<open>
  Claim C1 says that the chunk configuration maps each configured range to its own region.
  At the configuration of the first scenario (before 1..3, SNI 1..1, after 10..20) the
  before-SNI range handed to the server is 1..1, the configured SNI range, and not the
  configured before-SNI range 1..3; only the after-SNI range arrives where it belongs.
\<close>

theorem chunkConfig_scenario_before_sni:
  "BeforeSniLength (chunkConfig scenario_config) = (1, 1) \<and>
   SniChunksLength scenario_config = (1, 1) \<and>
   ChunksLengthBeforeSni scenario_config = (1, 3) \<and>
   AfterSniLength (chunkConfig scenario_config) = (10, 20)"
  by (simp add: chunkConfig_def scenario_config_def)

section \<open>The DoH client\<close>

text \<open>
  Claim C8, as the code has it: a DoH client is constructed exactly when the remote DNS
  address starts with \<open>https://\<close>, and its ClientHello fragmentation is on exactly when
  \<open>EnableDNSFragmentation\<close> is on or the worker is enabled in DNS-only mode.
\<close>

theorem dohClient_fragmentation:
  "(dohClient config \<noteq> None) = prefix ''https://'' (RemoteDNSAddr config) \<and>
   (\<forall>client. dohClient config = Some client \<longrightarrow>
      WithDNSFragmentation client =
        ((WorkerEnabled config \<and> WorkerDNSOnly config) \<or> EnableDNSFragmentation config))"
  by (auto simp add: dohClient_def)

theorem dohClient_fragmentation_witness:
  "prefix ''https://'' (RemoteDNSAddr scenario_config) \<and>
   map_option WithDNSFragmentation (dohClient scenario_config) =
     Some ((WorkerEnabled scenario_config \<and> WorkerDNSOnly scenario_config) \<or>
           EnableDNSFragmentation scenario_config)"
proof -
  have p: "prefix ''https://'' (RemoteDNSAddr scenario_config)"
    by (simp add: scenario_config_def)
  with dohClient_fragmentation [of scenario_config] obtain client where
    c: "dohClient scenario_config = Some client" by auto
  with dohClient_fragmentation [of scenario_config]
  have "WithDNSFragmentation client =
          ((WorkerEnabled scenario_config \<and> WorkerDNSOnly scenario_config) \<or>
           EnableDNSFragmentation scenario_config)"
    by blast
  with p c show ?thesis by simp
qed

text \<open>
  With the worker enabled for DNS only, the client fragments although
  \<open>EnableDNSFragmentation\<close> is off.
\<close>

theorem dohClient_fragmentation_counterexample:
  "map_option WithDNSFragmentation (dohClient scenario_config) = Some True \<and>
   EnableDNSFragmentation scenario_config = False"
  by (simp add: dohClient_def scenario_config_def)

section \<open>The interrupt handler\<close>

text \<open>
  Claim C6, as the code has it: with the interrupt handler installed, an interrupt makes
  the process call \<open>ShutDown\<close> and then exit with status 0; without \<open>captureCTRLC\<close> no
  handler is installed.
\<close>

theorem interrupt_exits_with_0:
  "on_interrupt True = Some (ShutDown @ [Os_Exit 0]) \<and>
   exit_status (ShutDown @ [Os_Exit 0]) = Some 0 \<and>
   on_interrupt False = None"
  by (simp add: on_interrupt_def signal_goroutine_def ShutDown_def)

text \<open>The exit status on interrupt is not 130.\<close>

theorem interrupt_exit_status_counterexample:
  "on_interrupt True = Some signal_goroutine \<and> exit_status signal_goroutine \<noteq> Some 130"
  by (simp add: on_interrupt_def signal_goroutine_def ShutDown_def)

section \<open>Attaching: what PersistentDial returns\<close>

text \<open>
  Claim C10: \<open>PersistentDial\<close> never returns an error. For every tunnel object, endpoint
  and bind queue it returns a \<open>nil\<close> error, the write queue of the endpoint's tunnel and a
  channel id under which the bind queue is now registered; for an endpoint that was absent
  the id is 1 and the write queue is the one just made.
\<close>

theorem PersistentDial_returns:
  "ret_err (PersistentDial w made now e b) = None \<and>
   (EstablishedTunnels w e = None \<longrightarrow>
      ret_id (PersistentDial w made now e b) = 1 \<and>
      ret_chan (PersistentDial w made now e b) = made) \<and>
   (\<exists>tunnel. EstablishedTunnels (tunnel_after (PersistentDial w made now e b)) e = Some tunnel \<and>
      tunnelWriteChannel tunnel = ret_chan (PersistentDial w made now e b) \<and>
      channelIndex tunnel = ret_id (PersistentDial w made now e b) \<and>
      bindWriteChannels tunnel (ret_id (PersistentDial w made now e b)) = Some b)"
  by (simp add: PersistentDial_def Let_def split: option.split)

theorem PersistentDial_returns_witness:
  "EstablishedTunnels tunnel0 endpoint0 = None \<and>
   ret_err (PersistentDial tunnel0 1 1000000000000 endpoint0 7) = None \<and>
   ret_id (PersistentDial tunnel0 1 1000000000000 endpoint0 7) = 1 \<and>
   ret_chan (PersistentDial tunnel0 1 1000000000000 endpoint0 7) = 1"
proof -
  have a: "EstablishedTunnels tunnel0 endpoint0 = None"
    by (simp add: tunnel0_def)
  with PersistentDial_returns [of tunnel0 1 1000000000000 endpoint0 7] show ?thesis
    by blast
qed

section \<open>Channel ids\<close>

text \<open>
  An attach to another endpoint leaves the endpoint's tunnel alone; an attach to the
  endpoint returns the successor of the index last handed out and stores it.
\<close>

lemma PersistentDial_other_endpoint:
  "tunnelEndpoint \<noteq> e \<Longrightarrow>
   EstablishedTunnels (tunnel_after (PersistentDial w made now tunnelEndpoint b)) e =
     EstablishedTunnels w e"
  by (simp add: PersistentDial_def Let_def split: option.split)

lemma PersistentDial_ret_id:
  "ret_id (PersistentDial w made now e b) = last_id w e + 1"
  by (simp add: PersistentDial_def last_id_def Let_def split: option.split)

lemma PersistentDial_last_id:
  "last_id (tunnel_after (PersistentDial w made now e b)) e = last_id w e + 1"
  by (simp add: PersistentDial_def last_id_def Let_def split: option.split)

lemma last_id_other_endpoint:
  "tunnelEndpoint \<noteq> e \<Longrightarrow>
   last_id (tunnel_after (PersistentDial w made now tunnelEndpoint b)) e = last_id w e"
  by (simp add: last_id_def PersistentDial_other_endpoint)

lemma upt_from_1_Suc: "[1..<Suc (Suc m)] = 1 # map Suc [1..<Suc m]"
  by (simp add: upt_conv_Cons map_Suc_upt del: upt_Suc)

text \<open>
  The ids returned for an endpoint in any sequence of attaches: the k-th is the index the
  endpoint started with plus k, in 16-bit arithmetic.
\<close>

lemma dial_ids_eq:
  "dial_ids e w calls = map (\<lambda>j. last_id w e + of_nat j) [1..<Suc (attaches e calls)]"
proof (induction calls arbitrary: w)
  case Nil
  show ?case by (simp add: attaches_def)
next
  case (Cons c calls)
  obtain made now tunnelEndpoint b where c: "c = (made, now, tunnelEndpoint, b)"
    by (cases c) auto
  show ?case
  proof (cases "tunnelEndpoint = e")
    case False
    then have "attaches e (c # calls) = attaches e calls"
      by (simp add: attaches_def c)
    with False show ?thesis
      by (simp add: c Let_def Cons.IH last_id_other_endpoint del: upt_Suc)
  next
    case True
    then have n: "attaches e (c # calls) = Suc (attaches e calls)"
      by (simp add: attaches_def c)
    have "dial_ids e w (c # calls) =
            (last_id w e + 1) #
            map (\<lambda>j. (last_id w e + 1) + of_nat j) [1..<Suc (attaches e calls)]"
      using True
      by (simp add: c Let_def Cons.IH PersistentDial_ret_id PersistentDial_last_id del: upt_Suc)
    also have "\<dots> = map (\<lambda>j. last_id w e + of_nat j) [1..<Suc (Suc (attaches e calls))]"
      by (simp only: upt_from_1_Suc) (simp add: comp_def ac_simps del: upt_Suc)
    finally show ?thesis by (simp only: n)
  qed
qed

lemma dial_ids_nth:
  assumes "i < attaches e calls"
  shows "dial_ids e w calls ! i = last_id w e + of_nat (Suc i)"
proof -
  have "i < length [1..<Suc (attaches e calls)]" using assms by simp
  then have "dial_ids e w calls ! i = last_id w e + of_nat ([1..<Suc (attaches e calls)] ! i)"
    by (simp only: dial_ids_eq nth_map)
  moreover have "[1..<Suc (attaches e calls)] ! i = Suc i"
    using assms by (simp del: upt_Suc)
  ultimately show ?thesis by simp
qed

lemma attaches_replicate: "attaches e (replicate n (made, now, e, b)) = n"
  by (simp add: attaches_def)

lemma unat_of_nat_upt:
  assumes "m \<le> 65535"
  shows "map (\<lambda>j. unat (of_nat j :: 16 word)) [1..<Suc m] = [1..<Suc m]"
proof -
  have "\<And>j. j \<in> set [1..<Suc m] \<Longrightarrow> unat (of_nat j :: 16 word) = j"
    using assms by (auto simp add: unat_of_nat)
  then have "map (\<lambda>j. unat (of_nat j :: 16 word)) [1..<Suc m] = map (\<lambda>j. j) [1..<Suc m]"
    by (intro map_cong) simp_all
  then show ?thesis by simp
qed

text \<open>
  Claim C5, as the code has it: for an endpoint that starts absent, and in any sequence of
  attaches (to this and to other endpoints) of which at most 65535 are to this endpoint,
  the ids returned for the endpoint are 1, 2, 3, ... in call order, one more per attach;
  so they are pairwise distinct and none is 0.
\<close>

theorem dial_ids_first_65535:
  assumes "EstablishedTunnels w e = None" and "attaches e calls \<le> 65535"
  shows "map unat (dial_ids e w calls) = [1..<Suc (attaches e calls)] \<and>
         distinct (dial_ids e w calls) \<and> 0 \<notin> set (dial_ids e w calls)"
proof -
  have z: "last_id w e = 0" using assms(1) by (simp add: last_id_def)
  have u: "map unat (dial_ids e w calls) = [1..<Suc (attaches e calls)]"
    using unat_of_nat_upt [OF assms(2)] by (simp add: dial_ids_eq z comp_def del: upt_Suc)
  have "distinct (map unat (dial_ids e w calls))"
    by (simp only: u distinct_upt)
  then have d: "distinct (dial_ids e w calls)"
    by (simp add: distinct_map)
  have "0 \<notin> set (dial_ids e w calls)"
  proof
    assume "0 \<in> set (dial_ids e w calls)"
    then have "unat (0 :: 16 word) \<in> set (map unat (dial_ids e w calls))"
      by (simp only: set_map) (rule imageI)
    then show False by (simp only: u) auto
  qed
  with u d show ?thesis by simp
qed

theorem dial_ids_first_65535_witness:
  "EstablishedTunnels tunnel0 endpoint0 = None \<and> attaches endpoint0 calls0 \<le> 65535 \<and>
   dial_ids endpoint0 tunnel0 calls0 = [1, 2, 3] \<and>
   map unat (dial_ids endpoint0 tunnel0 calls0) = [1, 2, 3]"
proof -
  have a: "EstablishedTunnels tunnel0 endpoint0 = None" by (simp add: tunnel0_def)
  have n: "attaches endpoint0 calls0 = 3"
    by (simp add: attaches_def calls0_def endpoint0_def)
  then have b: "attaches endpoint0 calls0 \<le> 65535" by simp
  have v: "dial_ids endpoint0 tunnel0 calls0 = [1, 2, 3]"
    by (simp add: calls0_def PersistentDial_def tunnel0_def endpoint0_def)
  from dial_ids_first_65535 [OF a b]
  have "map unat (dial_ids endpoint0 tunnel0 calls0) = [1..<Suc 3]"
    by (simp only: n)
  moreover have "[1..<Suc 3] = [1, 2, 3]" by (simp add: upt_conv_Cons)
  ultimately show ?thesis using a b v by simp
qed

text \<open>
  The index is 16 bits wide and is incremented without a check: of 65537 attaches to one
  endpoint the 65536th gets id 0, and the 65537th gets id 1 again, the id of the first.
\<close>

theorem dial_ids_wrap_counterexample:
  "dial_ids endpoint0 tunnel0 (replicate 65537 (1, 0, endpoint0, 7)) ! 65535 = 0 \<and>
   dial_ids endpoint0 tunnel0 (replicate 65537 (1, 0, endpoint0, 7)) ! 65536 =
   dial_ids endpoint0 tunnel0 (replicate 65537 (1, 0, endpoint0, 7)) ! 0"
proof -
  have z: "last_id tunnel0 endpoint0 = 0" by (simp add: last_id_def tunnel0_def)
  have "(65535::nat) < attaches endpoint0 (replicate 65537 (1, 0, endpoint0, 7))"
       "(65536::nat) < attaches endpoint0 (replicate 65537 (1, 0, endpoint0, 7))"
       "(0::nat) < attaches endpoint0 (replicate 65537 (1, 0, endpoint0, 7))"
    by (simp_all add: attaches_replicate)
  then show ?thesis
    by (simp add: dial_ids_nth z)
qed

section \<open>The tunnel writer\<close>

text \<open>
  Claim C3, as the code has it: for every packet received from the tunnel write queue the
  writer first sets a write deadline of \<open>WriteTimeout\<close> seconds from now (exactly so for a
  timeout between 0 and 9223372036 seconds, where the 64-bit product does not wrap). If
  setting the deadline succeeds it writes to the connection exactly the bytes of the short
  client id, then the channel id as two bytes, high byte first, then the data. If setting
  the deadline fails it writes nothing and the writer returns.
\<close>

theorem writer_packet_calls:
  "fst (writer_packet w stamp rt env) =
     SetWriteDeadline (time_Add (now_deadline env) (Duration_of (WriteTimeout w) * Second)) #
     (if deadline_err env = None
      then [Conn_Write (bytes_of (ShortClientID w) @ PutUint16 (Channel rt) @ Data rt)]
      else []) \<and>
   map unat (PutUint16 (Channel rt)) = [unat (Channel rt) div 256, unat (Channel rt) mod 256] \<and>
   (0 \<le> WriteTimeout w \<and> WriteTimeout w \<le> 9223372036 \<longrightarrow>
      time_Add (now_deadline env) (Duration_of (WriteTimeout w) * Second) =
        now_deadline env + WriteTimeout w * 1000000000) \<and>
   (deadline_err env \<noteq> None \<longrightarrow> snd (snd (writer_packet w stamp rt env)) = Return)"
  by (simp add: writer_packet_def Let_def PutUint16_big_endian time_Add_seconds)

theorem writer_packet_calls_witness:
  "0 \<le> WriteTimeout tunnel0 \<and> WriteTimeout tunnel0 \<le> 9223372036 \<and>
   fst (writer_packet tunnel0 1000 packet0 write_ok) =
     [SetWriteDeadline 1015000000000,
      Conn_Write [97, 98, 99, 100, 101, 102, 103, 104, 0, 1, 222, 173]] \<and>
   deadline_err write_no_deadline \<noteq> None \<and>
   snd (snd (writer_packet tunnel0 1000 packet0 write_no_deadline)) = Return"
proof -
  have r: "0 \<le> WriteTimeout tunnel0 \<and> WriteTimeout tunnel0 \<le> 9223372036"
    by (simp add: tunnel0_def)
  have "time_Add (now_deadline write_ok) (Duration_of (WriteTimeout tunnel0) * Second) =
          1015000000000"
    using writer_packet_calls [of tunnel0 1000 packet0 write_ok] r
    by (simp add: tunnel0_def write_ok_def)
  moreover have "deadline_err write_ok = None"
    by (simp add: write_ok_def)
  moreover have
    "bytes_of (ShortClientID tunnel0) @ PutUint16 (Channel packet0) @ Data packet0 =
       [97, 98, 99, 100, 101, 102, 103, 104, 0, 1, 222, 173]"
    by (simp add: bytes_of_def tunnel0_def PutUint16_def packet0_def)
  ultimately have "fst (writer_packet tunnel0 1000 packet0 write_ok) =
     [SetWriteDeadline 1015000000000,
      Conn_Write [97, 98, 99, 100, 101, 102, 103, 104, 0, 1, 222, 173]]"
    using writer_packet_calls [of tunnel0 1000 packet0 write_ok] by simp
  moreover have d: "deadline_err write_no_deadline \<noteq> None"
    by (simp add: write_no_deadline_def)
  moreover have "snd (snd (writer_packet tunnel0 1000 packet0 write_no_deadline)) = Return"
    using writer_packet_calls [of tunnel0 1000 packet0 write_no_deadline] d by blast
  ultimately show ?thesis using r by blast
qed

text \<open>
  A packet is received and \<open>SetWriteDeadline\<close> returns an error: the deadline call is the
  only call, no bytes are written, and the writer returns.
\<close>

theorem writer_packet_no_write_counterexample:
  "writer_packet tunnel0 1000 packet0 write_no_deadline =
     ([SetWriteDeadline 1015000000000], 1000, Return)"
  by (simp add: writer_packet_def tunnel0_def write_no_deadline_def time_Add_seconds)

section \<open>The tunnel reader\<close>

lemma tunnel1_entry:
  "EstablishedTunnels tunnel1 endpoint0 =
     Some \<lparr> tunnelWriteChannel = 1, bindWriteChannels = [1 \<mapsto> 7], channelIndex = 1 \<rparr>"
  by (simp add: tunnel1_def tunnel0_def PersistentDial_def)

text \<open>
  Claim C4: for every message, that is, for what one \<open>conn.Read\<close> delivers without an
  error, while the endpoint is in the map of established tunnels (as it is from the attach
  that started the supervisor on), the reader ignores a message of fewer than 2 bytes;
  otherwise the
  channel id is the big-endian 16-bit value of the first two bytes and the payload the rest
  of the message, the packet is sent on the bind queue registered for that channel id if
  there is one, and without such a queue the message is dropped: nothing is sent, and the
  reader goes on.
\<close>

theorem reader_read_routes:
  assumes "read_err r = None" and "EstablishedTunnels w tunnelEndpoint = Some tunnel"
  shows "reader_read w tunnelEndpoint stamp r =
     (if length (read_data r) < 2 then Some ([Conn_Read], stamp, Continue)
      else
        (case bindWriteChannels tunnel (Uint16 (take 2 (read_data r))) of
           Some queue \<Rightarrow>
             Some ([Conn_Read,
                    Chan_Send queue \<lparr> Channel = Uint16 (take 2 (read_data r)),
                                      Data = drop 2 (read_data r) \<rparr>],
                   Unix (now_sent r), Continue)
         | None \<Rightarrow> Some ([Conn_Read], stamp, Continue))) \<and>
     (2 \<le> length (read_data r) \<longrightarrow>
        unat (Uint16 (take 2 (read_data r))) =
          256 * unat (read_data r ! 0) + unat (read_data r ! 1))"
proof -
  have "2 \<le> length (read_data r) \<longrightarrow>
        unat (Uint16 (take 2 (read_data r))) =
          256 * unat (read_data r ! 0) + unat (read_data r ! 1)"
  proof
    assume "2 \<le> length (read_data r)"
    then obtain a b bs where "read_data r = a # b # bs"
      by (cases "read_data r"; cases "tl (read_data r)") auto
    then show "unat (Uint16 (take 2 (read_data r))) =
          256 * unat (read_data r ! 0) + unat (read_data r ! 1)"
      by (simp add: Uint16_big_endian)
  qed
  moreover have "reader_read w tunnelEndpoint stamp r =
     (if length (read_data r) < 2 then Some ([Conn_Read], stamp, Continue)
      else
        (case bindWriteChannels tunnel (Uint16 (take 2 (read_data r))) of
           Some queue \<Rightarrow>
             Some ([Conn_Read,
                    Chan_Send queue \<lparr> Channel = Uint16 (take 2 (read_data r)),
                                      Data = drop 2 (read_data r) \<rparr>],
                   Unix (now_sent r), Continue)
         | None \<Rightarrow> Some ([Conn_Read], stamp, Continue)))"
    using assms by (simp add: reader_read_def Let_def split: option.split)
  ultimately show ?thesis by blast
qed

theorem reader_read_routes_witness:
  "read_err read_a = None \<and> read_err read_short = None \<and> read_err read_stale = None \<and>
   EstablishedTunnels tunnel1 endpoint0 =
     Some \<lparr> tunnelWriteChannel = 1, bindWriteChannels = [1 \<mapsto> 7], channelIndex = 1 \<rparr> \<and>
   reader_read tunnel1 endpoint0 1000 read_a =
     Some ([Conn_Read, Chan_Send 7 \<lparr> Channel = 1, Data = [222, 173] \<rparr>], 1003, Continue) \<and>
   reader_read tunnel1 endpoint0 1000 read_short = Some ([Conn_Read], 1000, Continue) \<and>
   reader_read tunnel1 endpoint0 1000 read_stale = Some ([Conn_Read], 1000, Continue)"
proof -
  have a: "read_err read_a = None" by (simp add: read_a_def)
  have b: "read_err read_short = None" by (simp add: read_short_def)
  have c: "read_err read_stale = None" by (simp add: read_stale_def)
  have "reader_read tunnel1 endpoint0 1000 read_a =
     Some ([Conn_Read, Chan_Send 7 \<lparr> Channel = 1, Data = [222, 173] \<rparr>], 1003, Continue)"
    using reader_read_routes [OF a tunnel1_entry, of 1000]
    by (simp add: read_a_def Uint16_def Unix_def)
  moreover have
    "reader_read tunnel1 endpoint0 1000 read_short = Some ([Conn_Read], 1000, Continue)"
    using reader_read_routes [OF b tunnel1_entry, of 1000]
    by (simp add: read_short_def)
  moreover have
    "reader_read tunnel1 endpoint0 1000 read_stale = Some ([Conn_Read], 1000, Continue)"
    using reader_read_routes [OF c tunnel1_entry, of 1000]
    by (simp add: read_stale_def Uint16_def)
  ultimately show ?thesis using a b c tunnel1_entry by simp
qed

section \<open>The supervisor and the deadlines of a connection\<close>

text \<open>
  The supervisor returns, and with it removes the endpoint, only through the check that
  precedes the loop; whatever happens in the loop, it does not return.
\<close>

lemma supervisor_Returned_iff:
  "supervisor w e stamp now ps = Returned w' \<longleftrightarrow>
     LinkIdleTimeout w < Unix now - stamp \<and> w' = delete_endpoint w e"
  by (auto simp add: supervisor_def split: option.split)

text \<open>
  Claim C2 says that after more than \<open>LinkIdleTimeout\<close> without traffic the supervisor
  drops the endpoint on its next iteration and stops. Here the tunnel is created at second
  1000 with an idle timeout of 60 s and a read timeout of 100 s and nothing is ever sent or
  received. The first connection ends when its read times out at second 1100, 100 s after
  the last activity; the supervisor dials again and sets up the next connection, and the
  endpoint is still in the map.
\<close>

theorem supervisor_idle_keeps_looping:
  "supervisor tunnel1 endpoint0 1000 1000000000000 idle_passes =
     Looping tunnel1
       [Dial endpoint0, SetReadDeadline 1100000000000, Conn_Read, Conn_Close,
        Dial endpoint0, SetReadDeadline 1200000000000]
       1000 \<and>
   LinkIdleTimeout tunnel1 < Unix 1100000000000 - 1000 \<and>
   EstablishedTunnels tunnel1 endpoint0 \<noteq> None"
proof -
  have t: "ReadTimeout tunnel1 = 100" "LinkIdleTimeout tunnel1 = 60"
    by (simp_all add: tunnel1_def tunnel0_def PersistentDial_def)
  show ?thesis
    by (simp add: supervisor_def idle_passes_def connection_def reader_read_def read_timeout_def
        Unix_def t time_Add_seconds tunnel1_entry)
qed

text \<open>Serving a connection never sets a read deadline: only the call before the loop does.\<close>

lemma serve_no_read_deadline:
  "serve w e stamp writing evs = Some (calls, stamp', f) \<Longrightarrow> SetReadDeadline t \<notin> set calls"
proof (induction w e stamp writing evs arbitrary: calls stamp' f rule: serve.induct)
  case (1 w e stamp writing)
  then show ?case by simp
next
  case (2 w e stamp writing rt env evs)
  then show ?case
    by (auto simp add: writer_packet_def Let_def split: if_splits prod.splits flow.splits)
next
  case (3 w e stamp writing r evs)
  then show ?case
    by (auto simp add: reader_read_def Let_def
        split: if_splits prod.splits flow.splits option.splits)
qed

text \<open>
  Claim C9 says that every read is preceded by setting a read deadline of \<open>ReadTimeout\<close>
  seconds, as every write is by its write deadline. Here a connection is made at second
  1000 with a read timeout of 100 s and two messages are read, the second after second
  1003: the read deadline is set once, to second 1100, and the second read runs under that
  same deadline; no deadline is set between the two reads.
\<close>

theorem connection_one_read_deadline:
  "connection tunnel1 endpoint0 1000 1000000000000 None
     [Reader_select read_a, Reader_select read_b] =
     Some ([SetReadDeadline 1100000000000,
            Conn_Read, Chan_Send 7 \<lparr> Channel = 1, Data = [222, 173] \<rparr>,
            Conn_Read, Chan_Send 7 \<lparr> Channel = 1, Data = [190, 239] \<rparr>],
           1008, Continue)"
proof -
  have t: "ReadTimeout tunnel1 = 100"
    by (simp add: tunnel1_def tunnel0_def PersistentDial_def)
  show ?thesis
    by (simp add: connection_def reader_read_def tunnel1_entry read_a_def read_b_def Uint16_def
        Unix_def t time_Add_seconds)
qed

end
